theory Spec2Isabelle
  imports Main
begin

section \<open>Python values and library operations used by utils.py\<close>

text \<open>
  The exceptions that the functions of \<^verbatim>\<open>src/utils.py\<close> can raise.
  \<^verbatim>\<open>sys.exit()\<close> raises \<open>SystemExit\<close> with no code, \<^verbatim>\<open>sys.exit(msg)\<close>
  raises it with the message as its code. \<open>SystemExit\<close> derives from
  \<open>BaseException\<close>, not from \<open>ValueError\<close>. \<open>OSError\<close> is what a failed write to
  a stream raises. A raised exception is the left injection of a sum, a returned value
  the right one.
\<close>

datatype py_exc = SystemExit "string option" | ValueError | IndexError | OSError

text \<open>
  Slice bounds are adjusted as Python does for a step of one: a negative bound counts
  from the end, and every bound is clamped to \<open>0 .. len\<close>. An omitted bound is
  \<open>None\<close>. The slice is empty when the adjusted stop is not after the adjusted start.
\<close>

definition adjust_index :: "int \<Rightarrow> nat \<Rightarrow> nat" where
  "adjust_index i n =
     (if i < 0 then (if i + int n < 0 then 0 else nat (i + int n))
      else if int n \<le> i then n else nat i)"

definition py_slice :: "'a list \<Rightarrow> int option \<Rightarrow> int option \<Rightarrow> 'a list" where
  "py_slice xs start stop =
     (let n = length xs;
          a = (case start of None \<Rightarrow> 0 | Some i \<Rightarrow> adjust_index i n);
          b = (case stop of None \<Rightarrow> n | Some j \<Rightarrow> adjust_index j n)
      in take (b - a) (drop a xs))"

text \<open>
  Indexing the first axis of an array with an integer: indices \<open>-len .. len - 1\<close> are
  valid, a negative one counts from the end, any other raises \<open>IndexError\<close>.
\<close>

definition np_index :: "'a list \<Rightarrow> int \<Rightarrow> py_exc + 'a" where
  "np_index xs i =
     (let n = int (length xs)
      in if i < - n \<or> n \<le> i then Inl IndexError
         else Inr (xs ! nat (if i < 0 then i + n else i)))"

text \<open>
  \<^verbatim>\<open>np.array(rows)\<close> stacks rows of one common length; NumPy 1.24 and later raise
  \<open>ValueError\<close> when the rows differ in length. An empty list of rows is an empty array.
\<close>

definition np_array :: "'a list list \<Rightarrow> py_exc + 'a list list" where
  "np_array rows =
     (if (\<exists>r \<in> set rows. length r \<noteq> length (hd rows)) then Inl ValueError else Inr rows)"

text \<open>\<^verbatim>\<open>np.arange(a, b)\<close> and \<^verbatim>\<open>range(n)\<close> on integers.\<close>

definition np_arange :: "int \<Rightarrow> int \<Rightarrow> int list" where
  "np_arange a b = [a .. b - 1]"

definition py_range :: "int \<Rightarrow> int list" where
  "py_range n = [0 .. n - 1]"

text \<open>
  \<^verbatim>\<open>pd.DataFrame({"date": dates, col: values}).set_index("date", drop=True)\<close>: a frame
  of one column indexed by the dates, here the list of its (date, value) rows. pandas
  raises \<open>ValueError\<close> when the two columns differ in length.
\<close>

definition data_frame :: "int list \<Rightarrow> 'a list \<Rightarrow> py_exc + (int \<times> 'a) list" where
  "data_frame dates vals =
     (if length dates = length vals then Inr (zip dates vals) else Inl ValueError)"

text \<open>
  \<^verbatim>\<open>print(text)\<close> writes to \<open>sys.stdout\<close>. What the call does depends on the state
  of that stream, not on the arguments of the functions below, so its outcome is a
  parameter of the model: \<open>Inr ()\<close> when the text is written, \<open>Inl e\<close> when the call
  raises \<open>e\<close>. On a closed \<open>sys.stdout\<close> it raises \<open>ValueError\<close>, on a failed write
  \<open>OSError\<close>. In \<open>_split_sequence\<close> the \<^verbatim>\<open>print\<close> is followed by the end of the
  run, and in \<open>train_val_split\<close> it is the last statement, so a run makes at most one
  such call and one outcome describes it.
\<close>

type_synonym print_result = "py_exc + unit"

section \<open>\_split\_sequence\<close>

text \<open>
  Lines 53 to 58: the body of the \<^verbatim>\<open>try\<close> block, with its \<^verbatim>\<open>print\<close> before
  \<^verbatim>\<open>sys.exit()\<close>, and the \<^verbatim>\<open>except ValueError\<close> clause around it, which runs
  its handler for a \<open>ValueError\<close> of the body and lets everything else through.
\<close>

definition length_guard :: "print_result \<Rightarrow> 'a list \<Rightarrow> int \<Rightarrow> int \<Rightarrow> py_exc + unit" where
  "length_guard print_result sequence n_input n_output =
     (if int (length sequence) < n_input + n_output
      then (case print_result of
              Inl e \<Rightarrow> Inl e
            | Inr _ \<Rightarrow> Inl (SystemExit None))
      else Inr ())"

fun except_ValueError :: "py_exc + 'a \<Rightarrow> py_exc + 'a \<Rightarrow> py_exc + 'a" where
  "except_ValueError (Inl ValueError) handler = handler"
| "except_ValueError body handler = body"

definition guard_handler :: "py_exc + unit" where
  "guard_handler = Inl (SystemExit (Some ''sequence too short - aborting operation''))"

definition try_length_guard :: "print_result \<Rightarrow> 'a list \<Rightarrow> int \<Rightarrow> int \<Rightarrow> py_exc + unit" where
  "try_length_guard print_result sequence n_input n_output =
     except_ValueError (length_guard print_result sequence n_input n_output) guard_handler"

text \<open>
  Lines 60 to 70: the loop over \<^verbatim>\<open>enumerate(sequence)\<close>, as a recursion over the
  indices still to visit, with the two lists built so far. \<^verbatim>\<open>break\<close> returns them.
\<close>

fun split_loop ::
  "'a list \<Rightarrow> int \<Rightarrow> int \<Rightarrow> nat list \<Rightarrow> 'a list list \<Rightarrow> 'a list list
     \<Rightarrow> 'a list list \<times> 'a list list" where
  "split_loop sequence n_input n_output [] inputs outputs = (inputs, outputs)"
| "split_loop sequence n_input n_output (i # rest) inputs outputs =
     (let input_end = int i + n_input;
          output_end = input_end + n_output - 1
      in if output_end > int (length sequence) then (inputs, outputs)
         else
           let seq_x = py_slice sequence (Some (int i)) (Some input_end);
               seq_y = py_slice sequence (Some (input_end - 1)) (Some output_end)
           in split_loop sequence n_input n_output rest (inputs @ [seq_x]) (outputs @ [seq_y]))"

definition split_sequence ::
  "print_result \<Rightarrow> 'a list \<Rightarrow> int \<Rightarrow> int
     \<Rightarrow> py_exc + ('a list list \<times> 'a list list)" where
  "split_sequence print_result sequence n_input n_output =
     (case try_length_guard print_result sequence n_input n_output of
        Inl e \<Rightarrow> Inl e
      | Inr _ \<Rightarrow>
          (case split_loop sequence n_input n_output [0 ..< length sequence] [] [] of
             (inputs, outputs) \<Rightarrow>
               (case np_array inputs of
                  Inl e \<Rightarrow> Inl e
                | Inr xs \<Rightarrow>
                    (case np_array outputs of
                       Inl e \<Rightarrow> Inl e
                     | Inr ys \<Rightarrow> Inr (xs, ys)))))"

section \<open>plot\_validation\<close>

text \<open>
  The chart holds the three traces handed to \<^verbatim>\<open>axis.plot\<close>, each a list of
  (time offset, value) rows; the fields carry the names of the three data frames. The
  model collaborator is the function \<open>predict\<close> from the batch of input windows to the
  batch of forecasts. Windows and forecasts are flat rows, so \<^verbatim>\<open>flatten\<close> leaves
  them as they are.
\<close>

record 'a chart =
  model_output :: "(int \<times> 'a) list"
  model_input :: "(int \<times> 'a) list"
  expected :: "(int \<times> 'a) list"

definition plot_validation ::
  "('a list list \<Rightarrow> 'a list list) \<Rightarrow> 'a list list \<Rightarrow> 'a list list \<Rightarrow> int
     \<Rightarrow> py_exc + 'a chart" where
  "plot_validation predict val_set y_test i =
     (if i > int (length y_test) then Inl IndexError
      else
        let forecasts = predict val_set
        in case np_index forecasts i of
             Inl e \<Rightarrow> Inl e
           | Inr x_pred \<Rightarrow>
        (case np_index val_set i of
             Inl e \<Rightarrow> Inl e
           | Inr val_i \<Rightarrow>
        (let x_pred_len = int (length val_i);
             dates = map (\<lambda>d. d - 1) (np_arange x_pred_len (x_pred_len + int (length x_pred)))
         in case data_frame dates x_pred of
              Inl e \<Rightarrow> Inl e
            | Inr out_frame \<Rightarrow>
        (case data_frame (py_range x_pred_len) val_i of
              Inl e \<Rightarrow> Inl e
            | Inr in_frame \<Rightarrow>
        (case np_index y_test i of
              Inl e \<Rightarrow> Inl e
            | Inr y_i \<Rightarrow>
        (case data_frame dates y_i of
              Inl e \<Rightarrow> Inl e
            | Inr exp_frame \<Rightarrow>
                Inr \<lparr>model_output = out_frame, model_input = in_frame,
                     expected = exp_frame\<rparr>))))))"

text \<open>
  A model collaborator that answers every batch with the same forecasts, for the
  concrete runs below.
\<close>

definition fixed_model :: "'a list list \<Rightarrow> 'a list list \<Rightarrow> 'a list list" where
  "fixed_model forecasts batch = forecasts"

section \<open>train\_val\_split\<close>

text \<open>
  Lines 135 to 138: the split index and the two slices of the data. The data is a table
  with one row per time step, sliced by position; \<^verbatim>\<open>.values\<close> is the sequence of
  its rows. Lines 140 to 147: the two calls of \<open>_split_sequence\<close>, the report of the
  sample counts with \<^verbatim>\<open>print\<close>, and the four arrays.
\<close>

definition split_idx :: "'a list \<Rightarrow> int \<Rightarrow> int \<Rightarrow> int \<Rightarrow> int" where
  "split_idx data n_steps_in n_steps_out val_samples =
     (let n_samples = val_samples - 1
      in int (length data) - (n_steps_in + n_steps_out - 1) - n_samples)"

definition data_train :: "'a list \<Rightarrow> int \<Rightarrow> int \<Rightarrow> int \<Rightarrow> 'a list" where
  "data_train data n_steps_in n_steps_out val_samples =
     py_slice data None (Some (split_idx data n_steps_in n_steps_out val_samples))"

definition data_valid :: "'a list \<Rightarrow> int \<Rightarrow> int \<Rightarrow> int \<Rightarrow> 'a list" where
  "data_valid data n_steps_in n_steps_out val_samples =
     py_slice data (Some (split_idx data n_steps_in n_steps_out val_samples)) None"

definition train_val_split ::
  "print_result \<Rightarrow> 'a list \<Rightarrow> int \<Rightarrow> int \<Rightarrow> int
     \<Rightarrow> py_exc + ('a list list \<times> 'a list list \<times> 'a list list \<times> 'a list list)" where
  "train_val_split print_result data n_steps_in n_steps_out val_samples =
     (case split_sequence print_result (data_train data n_steps_in n_steps_out val_samples)
             n_steps_in n_steps_out of
        Inl e \<Rightarrow> Inl e
      | Inr (x_train_set, y_train_set) \<Rightarrow>
          (case split_sequence print_result (data_valid data n_steps_in n_steps_out val_samples)
                  n_steps_in n_steps_out of
             Inl e \<Rightarrow> Inl e
           | Inr (x_valid_set, y_valid_set) \<Rightarrow>
               (case print_result of
                  Inl e \<Rightarrow> Inl e
                | Inr _ \<Rightarrow> Inr (x_train_set, y_train_set, x_valid_set, y_valid_set))))"

text \<open>
  The number of start indices \<open>i\<close> with \<open>i + n_input + n_output - 1 \<le> len\<close>, for
  a sequence that passes the length guard.
\<close>

definition n_windows :: "'a list \<Rightarrow> int \<Rightarrow> int \<Rightarrow> nat" where
  "n_windows s ni no = nat (int (length s) - (ni + no) + 2)"

section \<open>Slices and the windowing loop\<close>

lemma takeWhile_less_upt: "takeWhile (\<lambda>i. i < m) [0 ..< n] = [0 ..< min m n]"
proof (induction n)
  case 0
  show ?case by simp
next
  case (Suc n)
  have split: "[0 ..< Suc n] = [0 ..< n] @ [n]" by simp
  show ?case
  proof (cases "n < m")
    case True
    then have "min m (Suc n) = Suc n" by simp
    moreover have "takeWhile (\<lambda>i. i < m) [0 ..< Suc n] = [0 ..< Suc n]"
      using True by (simp only: takeWhile_eq_all_conv) auto
    ultimately show ?thesis by (simp only:)
  next
    case False
    then have "takeWhile (\<lambda>i. i < m) ([0 ..< n] @ [n]) = takeWhile (\<lambda>i. i < m) [0 ..< n]"
      by (rule takeWhile_tail)
    moreover from False have "min m (Suc n) = min m n" by simp
    ultimately show ?thesis using Suc.IH by (simp only: split)
  qed
qed


lemma adjust_index_in_range: "0 \<le> i \<Longrightarrow> i \<le> int n \<Longrightarrow> adjust_index i n = nat i"
  by (auto simp: adjust_index_def)

lemma py_slice_in_range:
  "0 \<le> a \<Longrightarrow> a \<le> b \<Longrightarrow> b \<le> int (length xs) \<Longrightarrow>
   py_slice xs (Some a) (Some b) = take (nat (b - a)) (drop (nat a) xs)"
  by (simp add: py_slice_def adjust_index_in_range nat_diff_distrib Let_def)

lemma py_slice_partition: "py_slice xs None (Some k) @ py_slice xs (Some k) None = xs"
  by (simp add: py_slice_def)

lemma split_loop_takeWhile:
  "split_loop s ni no is ins outs =
     (ins @ map (\<lambda>i. py_slice s (Some (int i)) (Some (int i + ni)))
              (takeWhile (\<lambda>i. int i + ni + no - 1 \<le> int (length s)) is),
      outs @ map (\<lambda>i. py_slice s (Some (int i + ni - 1)) (Some (int i + ni + no - 1)))
              (takeWhile (\<lambda>i. int i + ni + no - 1 \<le> int (length s)) is))"
  by (induction "is" arbitrary: ins outs) (auto simp: Let_def)

lemma fits_iff:
  "ni + no \<le> int (length s) \<Longrightarrow>
   (int i + ni + no - 1 \<le> int (length s)) = (i < n_windows s ni no)"
  unfolding n_windows_def by linarith

lemma n_windows_le: "2 \<le> ni + no \<Longrightarrow> n_windows s ni no \<le> length s"
  unfolding n_windows_def by linarith

lemma fits_takeWhile:
  assumes "2 \<le> ni + no" "ni + no \<le> int (length s)"
  shows "takeWhile (\<lambda>i. int i + ni + no - 1 \<le> int (length s)) [0 ..< length s]
         = [0 ..< n_windows s ni no]"
proof -
  have "(\<lambda>i. int i + ni + no - 1 \<le> int (length s)) = (\<lambda>i. i < n_windows s ni no)"
    using assms(2) by (simp only: fits_iff)
  moreover have "min (n_windows s ni no) (length s) = n_windows s ni no"
    using n_windows_le[OF assms(1), of s] by (simp only: min_def if_True)
  ultimately show ?thesis by (simp only: takeWhile_less_upt)
qed

lemma np_array_uniform:
  "(\<And>r. r \<in> set rows \<Longrightarrow> length r = c) \<Longrightarrow> np_array rows = Inr rows"
  by (cases rows) (auto simp: np_array_def)

lemma window_fit:
  "ni + no \<le> int (length s) \<Longrightarrow> i < n_windows s ni no \<Longrightarrow>
   int i + ni + no - 1 \<le> int (length s)"
  by (simp only: fits_iff)

lemma input_window_slice:
  assumes "1 \<le> ni" "1 \<le> no" "ni + no \<le> int (length s)" "i < n_windows s ni no"
  shows "py_slice s (Some (int i)) (Some (int i + ni)) = take (nat ni) (drop i s)"
proof -
  have "int i + ni \<le> int (length s)"
    using window_fit[OF assms(3,4)] assms(2) by linarith
  then have "py_slice s (Some (int i)) (Some (int i + ni))
             = take (nat (int i + ni - int i)) (drop (nat (int i)) s)"
    using assms(1) by (intro py_slice_in_range) linarith+
  then show ?thesis by simp
qed

lemma output_window_slice:
  assumes "1 \<le> ni" "1 \<le> no" "ni + no \<le> int (length s)" "i < n_windows s ni no"
  shows "py_slice s (Some (int i + ni - 1)) (Some (int i + ni + no - 1))
         = take (nat no) (drop (i + nat ni - 1) s)"
proof -
  have "py_slice s (Some (int i + ni - 1)) (Some (int i + ni + no - 1))
        = take (nat (int i + ni + no - 1 - (int i + ni - 1))) (drop (nat (int i + ni - 1)) s)"
    using window_fit[OF assms(3,4)] assms(1,2) by (intro py_slice_in_range) linarith+
  moreover have "nat (int i + ni - 1) = i + nat ni - 1"
    using assms(1) by linarith
  moreover have "int i + ni + no - 1 - (int i + ni - 1) = no" by simp
  ultimately show ?thesis by (simp only:)
qed

lemma length_input_window:
  assumes "1 \<le> ni" "1 \<le> no" "ni + no \<le> int (length s)" "i < n_windows s ni no"
  shows "length (take (nat ni) (drop i s)) = nat ni"
proof -
  have "int i + ni \<le> int (length s)"
    using window_fit[OF assms(3,4)] assms(2) by linarith
  then have "nat ni \<le> length s - i" using assms(1) by linarith
  then show ?thesis by simp
qed

lemma length_output_window:
  assumes "1 \<le> ni" "1 \<le> no" "ni + no \<le> int (length s)" "i < n_windows s ni no"
  shows "length (take (nat no) (drop (i + nat ni - 1) s)) = nat no"
proof -
  have "nat no \<le> length s - (i + nat ni - 1)"
    using window_fit[OF assms(3,4)] assms(1,2) by linarith
  then show ?thesis by simp
qed

lemma except_ValueError_Inr: "(except_ValueError body guard_handler = Inr u) = (body = Inr u)"
  by (cases "(body, guard_handler)" rule: except_ValueError.cases)
     (simp_all add: guard_handler_def)


lemma try_length_guard_passes:
  "ni + no \<le> int (length s) \<Longrightarrow> try_length_guard pr s ni no = Inr ()"
  by (simp add: try_length_guard_def length_guard_def)

lemma try_length_guard_Inr:
  "(try_length_guard pr s ni no = Inr u) = (ni + no \<le> int (length s))"
  by (auto simp: try_length_guard_def except_ValueError_Inr length_guard_def split: sum.splits)


lemma try_length_guard_short:
  assumes "int (length s) < ni + no"
  shows "try_length_guard (Inr ()) s ni no = Inl (SystemExit None)"
    and "try_length_guard (Inl ValueError) s ni no = guard_handler"
    and "try_length_guard (Inl OSError) s ni no = Inl OSError"
    and "\<exists>e. try_length_guard pr s ni no = Inl e"
proof -
  show "try_length_guard (Inr ()) s ni no = Inl (SystemExit None)"
    using assms by (simp add: try_length_guard_def length_guard_def)
  show "try_length_guard (Inl ValueError) s ni no = guard_handler"
    using assms by (simp add: try_length_guard_def length_guard_def)
  show "try_length_guard (Inl OSError) s ni no = Inl OSError"
    using assms by (simp add: try_length_guard_def length_guard_def)
  have "\<not> ni + no \<le> int (length s)" using assms by simp
  then have "\<forall>u. try_length_guard pr s ni no \<noteq> Inr u"
    by (simp only: try_length_guard_Inr) simp
  then show "\<exists>e. try_length_guard pr s ni no = Inl e"
    by (cases "try_length_guard pr s ni no") auto
qed

lemma split_sequence_short:
  "int (length s) < ni + no \<Longrightarrow> split_sequence (Inr ()) s ni no = Inl (SystemExit None)"
  by (simp add: split_sequence_def try_length_guard_short(1))

lemma split_sequence_short_closed:
  "int (length s) < ni + no \<Longrightarrow>
   split_sequence (Inl ValueError) s ni no
     = Inl (SystemExit (Some ''sequence too short - aborting operation''))"
  by (simp add: split_sequence_def try_length_guard_short(2)) (simp add: guard_handler_def)

lemma split_sequence_short_any:
  assumes "int (length s) < ni + no"
  shows "\<exists>e. split_sequence pr s ni no = Inl e"
proof -
  obtain e where "try_length_guard pr s ni no = Inl e"
    using try_length_guard_short(4)[OF assms] by blast
  then show ?thesis by (simp add: split_sequence_def)
qed

lemma split_sequence_eq:
  assumes "1 \<le> ni" "1 \<le> no" "ni + no \<le> int (length s)"
  shows "split_sequence pr s ni no =
     Inr (map (\<lambda>i. take (nat ni) (drop i s)) [0 ..< n_windows s ni no],
          map (\<lambda>i. take (nat no) (drop (i + nat ni - 1) s)) [0 ..< n_windows s ni no])"
proof -
  let ?m = "n_windows s ni no"
  let ?ins = "map (\<lambda>i. take (nat ni) (drop i s)) [0 ..< ?m]"
  let ?outs = "map (\<lambda>i. take (nat no) (drop (i + nat ni - 1) s)) [0 ..< ?m]"
  have two: "2 \<le> ni + no" using assms(1,2) by linarith
  have tw: "takeWhile (\<lambda>i. int i + ni + no - 1 \<le> int (length s)) [0 ..< length s] = [0 ..< ?m]"
    using two assms(3) by (rule fits_takeWhile)
  have ins: "map (\<lambda>i. py_slice s (Some (int i)) (Some (int i + ni))) [0 ..< ?m] = ?ins"
    by (rule map_cong[OF refl]) (simp add: input_window_slice[OF assms])
  have outs: "map (\<lambda>i. py_slice s (Some (int i + ni - 1)) (Some (int i + ni + no - 1))) [0 ..< ?m]
              = ?outs"
    by (rule map_cong[OF refl]) (simp add: output_window_slice[OF assms])
  have loop: "split_loop s ni no [0 ..< length s] [] [] = (?ins, ?outs)"
    by (simp only: split_loop_takeWhile tw ins outs append_Nil)
  have a1: "np_array ?ins = Inr ?ins"
    by (rule np_array_uniform[where c = "nat ni"]) (use length_input_window[OF assms] in \<open>auto simp del: length_take length_drop\<close>)
  have a2: "np_array ?outs = Inr ?outs"
    by (rule np_array_uniform[where c = "nat no"]) (use length_output_window[OF assms] in \<open>auto simp del: length_take length_drop\<close>)
  have g: "try_length_guard pr s ni no = Inr ()"
    using assms(3) by (rule try_length_guard_passes)
  show ?thesis
    by (simp only: split_sequence_def g loop a1 a2 sum.case prod.case)
qed

lemma docstring_example:
  "split_sequence (Inr ()) [1, 2, 3, 4, 5 :: int] 3 2 = Inr ([[1, 2, 3], [2, 3, 4]], [[3, 4], [4, 5]])"
proof -
  have n: "n_windows [1, 2, 3, 4, 5 :: int] 3 2 = 2"
    by (simp add: n_windows_def)
  have u: "[0 ..< 2] = [0, Suc 0]"
    by (simp add: upt_rec)
  show ?thesis
    by (simp add: split_sequence_eq n u)
qed

lemma nth_windows:
  assumes "1 \<le> ni" "1 \<le> no" "ni + no \<le> int (length s)"
  shows "\<exists>inputs outputs.
           split_sequence pr s ni no = Inr (inputs, outputs)
         \<and> length inputs = n_windows s ni no
         \<and> length outputs = n_windows s ni no
         \<and> (\<forall>k < n_windows s ni no.
               inputs ! k = take (nat ni) (drop k s)
             \<and> outputs ! k = take (nat no) (drop (k + nat ni - 1) s))"
  by (simp add: split_sequence_eq[OF assms])

lemma last_input_window:
  assumes "1 \<le> ni" "1 \<le> no" "ni + no \<le> int (length s)" "i < n_windows s ni no"
  shows "last (take (nat ni) (drop i s)) = s ! (i + nat ni - 1)"
proof -
  let ?w = "take (nat ni) (drop i s)"
  have len: "length ?w = nat ni" by (rule length_input_window[OF assms])
  have pos: "0 < nat ni" using assms(1) by simp
  then have ne: "?w \<noteq> []" using len by auto
  have "last ?w = ?w ! (nat ni - 1)"
    using last_conv_nth[OF ne] by (simp only: len)
  also have "\<dots> = drop i s ! (nat ni - 1)"
    using pos by simp
  also have "\<dots> = s ! (i + (nat ni - 1))"
  proof (rule nth_drop)
    have "int i + ni \<le> int (length s)"
      using window_fit[OF assms(3,4)] assms(2) by linarith
    then show "i \<le> length s" using assms(1) by linarith
  qed
  finally show ?thesis using pos by simp
qed

lemma hd_output_window:
  assumes "1 \<le> ni" "1 \<le> no" "ni + no \<le> int (length s)" "i < n_windows s ni no"
  shows "hd (take (nat no) (drop (i + nat ni - 1) s)) = s ! (i + nat ni - 1)"
proof -
  have lt: "i + nat ni - 1 < length s"
    using window_fit[OF assms(3,4)] assms(1,2) by linarith
  have pos: "0 < nat no" using assms(2) by simp
  have "hd (take (nat no) (drop (i + nat ni - 1) s)) = hd (drop (i + nat ni - 1) s)"
    using pos by (cases "nat no") simp_all
  also have "\<dots> = s ! (i + nat ni - 1)"
    using lt by (rule hd_drop_conv_nth)
  finally show ?thesis .
qed

lemma upt_two: "[0 ..< 2] = [0, Suc 0]"
  by (simp add: upt_rec)

lemma n_windows_exact: "int (length s) = ni + no \<Longrightarrow> n_windows s ni no = 2"
  by (simp add: n_windows_def)

lemma np_array_cases: "np_array rows = Inl ValueError \<or> np_array rows = Inr rows"
  by (simp add: np_array_def)


lemma length_data_valid_one:
  assumes "2 \<le> ni + no"
  shows "int (length (data_valid data ni no 1)) < ni + no"
  using assms
  by (auto simp: data_valid_def split_idx_def py_slice_def adjust_index_def Let_def)

lemma train_val_split_one:
  assumes "1 \<le> ni" "1 \<le> no"
  shows "train_val_split (Inr ()) data ni no 1 = Inl (SystemExit None)"
    and "\<exists>e. train_val_split pr data ni no 1 = Inl e"
proof -
  have two: "2 \<le> ni + no" using assms by linarith
  note va = length_data_valid_one[OF two, of data]
  show "train_val_split (Inr ()) data ni no 1 = Inl (SystemExit None)"
  proof (cases "int (length (data_train data ni no 1)) < ni + no")
    case True
    then show ?thesis
      by (simp add: train_val_split_def split_sequence_short)
  next
    case False
    then have le: "ni + no \<le> int (length (data_train data ni no 1))" by simp
    show ?thesis
      by (simp add: train_val_split_def split_sequence_eq[OF assms le]
            split_sequence_short[OF va])
  qed
  show "\<exists>e. train_val_split pr data ni no 1 = Inl e"
  proof (cases "int (length (data_train data ni no 1)) < ni + no")
    case True
    then obtain e where "split_sequence pr (data_train data ni no 1) ni no = Inl e"
      using split_sequence_short_any by blast
    then show ?thesis
      by (simp add: train_val_split_def)
  next
    case False
    then have le: "ni + no \<le> int (length (data_train data ni no 1))" by simp
    obtain e where "split_sequence pr (data_valid data ni no 1) ni no = Inl e"
      using split_sequence_short_any[OF va] by blast
    then show ?thesis
      by (simp add: train_val_split_def split_sequence_eq[OF assms le])
  qed
qed

lemma takeWhile_single:
  assumes "int (length s) = ni + no - 1"
  shows "takeWhile (\<lambda>i. int i + ni + no - 1 \<le> int (length s)) is = takeWhile (\<lambda>i. i < 1) is"
proof -
  have "(\<lambda>i. int i + ni + no - 1 \<le> int (length s)) = (\<lambda>i. i < 1)"
    using assms by (auto simp: fun_eq_iff)
  then show ?thesis by (simp only:)
qed

lemma split_loop_single:
  assumes "1 \<le> ni" "1 \<le> no" "int (length s) = ni + no - 1"
  shows "split_loop s ni no [0 ..< length s] [] []
         = ([take (nat ni) s], [take (nat no) (drop (nat ni - 1) s)])"
proof -
  have pos: "1 \<le> length s" using assms by linarith
  then have m: "min 1 (length s) = 1" by simp
  have tw: "takeWhile (\<lambda>i. int i + ni + no - 1 \<le> int (length s)) [0 ..< length s] = [0]"
    by (simp only: takeWhile_single[OF assms(3)] takeWhile_less_upt m) simp
  have a: "py_slice s (Some (int 0)) (Some (int 0 + ni)) = take (nat (int 0 + ni - int 0)) (drop (nat (int 0)) s)"
    using assms by (intro py_slice_in_range) linarith+
  have b: "py_slice s (Some (int 0 + ni - 1)) (Some (int 0 + ni + no - 1))
           = take (nat (int 0 + ni + no - 1 - (int 0 + ni - 1))) (drop (nat (int 0 + ni - 1)) s)"
    using assms by (intro py_slice_in_range) linarith+
  have c: "nat (ni - 1) = nat ni - 1" using assms(1) by linarith
  show ?thesis
    using a b by (simp add: split_loop_takeWhile tw c)
qed

lemma py_slice_prefix_in_range:
  "0 \<le> k \<Longrightarrow> k \<le> int (length xs) \<Longrightarrow> py_slice xs None (Some k) = take (nat k) xs"
  by (simp add: py_slice_def adjust_index_in_range)

lemma py_slice_suffix_in_range:
  "0 \<le> k \<Longrightarrow> k \<le> int (length xs) \<Longrightarrow> py_slice xs (Some k) None = drop (nat k) xs"
  by (simp add: py_slice_def adjust_index_in_range)

lemma length_data_valid:
  assumes "0 \<le> split_idx data ni no vs" "2 \<le> ni + no"
      and "ni + no \<le> int (length (data_valid data ni no vs))"
  shows "int (length (data_valid data ni no vs)) = ni + no + vs - 2"
  using assms
  by (auto simp: data_valid_def split_idx_def py_slice_def adjust_index_def Let_def
           split: if_splits)

section \<open>Charts of plot\_validation\<close>

lemma length_upto_arange: "length (np_arange a b) = nat (b - a)"
  by (simp add: np_arange_def)

lemma map_pred_upto: "map (\<lambda>d. d - 1) [a .. b] = [a - 1 .. b - 1]"
  by (rule nth_equalityI) simp_all

lemma plot_dates:
  "map (\<lambda>d. d - 1) (np_arange (int n) (int n + int m)) = [int n - 1 .. int n + int m - 2]"
  by (simp add: np_arange_def map_pred_upto)

lemma plot_validation_ok:
  assumes "np_index (predict val_set) i = Inr x_pred"
      and "np_index val_set i = Inr val_i"
      and "np_index y_test i = Inr y_i"
      and "length y_i = length x_pred"
      and "i \<le> int (length y_test)"
  shows "plot_validation predict val_set y_test i =
     Inr \<lparr>model_output = zip [int (length val_i) - 1 .. int (length val_i) + int (length x_pred) - 2] x_pred,
          model_input = zip [0 .. int (length val_i) - 1] val_i,
          expected = zip [int (length val_i) - 1 .. int (length val_i) + int (length x_pred) - 2] y_i\<rparr>"
  using assms
  by (simp add: plot_validation_def Let_def data_frame_def plot_dates py_range_def
        length_upto_arange)





lemma np_index_Inr_bound: "np_index xs i = Inr x \<Longrightarrow> i < int (length xs)"
  by (auto simp: np_index_def Let_def split: if_splits)

lemma takeWhile_upt_nth:
  assumes "k < length (takeWhile P [0 ..< n])"
  shows "takeWhile P [0 ..< n] ! k = k" and "P k"
proof -
  have le: "length (takeWhile P [0 ..< n]) \<le> length [0 ..< n]"
    by (rule length_takeWhile_le)
  then have kn: "k < n" using assms by simp
  have "takeWhile P [0 ..< n] ! k = [0 ..< n] ! k"
    using assms by (rule takeWhile_nth)
  then show eq: "takeWhile P [0 ..< n] ! k = k"
    using kn by simp
  have "takeWhile P [0 ..< n] ! k \<in> set (takeWhile P [0 ..< n])"
    using assms by (rule nth_mem)
  then have "P (takeWhile P [0 ..< n] ! k)"
    by (auto dest: set_takeWhileD)
  then show "P k" by (simp only: eq)
qed

lemma split_sequence_Inr:
  assumes "split_sequence pr s ni no = Inr (inputs, outputs)"
  shows "inputs = map (\<lambda>i. py_slice s (Some (int i)) (Some (int i + ni)))
              (takeWhile (\<lambda>i. int i + ni + no - 1 \<le> int (length s)) [0 ..< length s])"
    and "outputs = map (\<lambda>i. py_slice s (Some (int i + ni - 1)) (Some (int i + ni + no - 1)))
              (takeWhile (\<lambda>i. int i + ni + no - 1 \<le> int (length s)) [0 ..< length s])"
  using assms
        np_array_cases[of "fst (split_loop s ni no [0 ..< length s] [] [])"]
        np_array_cases[of "snd (split_loop s ni no [0 ..< length s] [] [])"]
  by (auto simp: split_sequence_def split_loop_takeWhile split: sum.splits)

lemma split_sequence_Inr_windows:
  assumes "split_sequence pr s ni no = Inr (inputs, outputs)"
  shows "length inputs = length outputs"
    and "\<forall>k < length inputs.
           int k + ni + no - 1 \<le> int (length s)
         \<and> inputs ! k = py_slice s (Some (int k)) (Some (int k + ni))
         \<and> outputs ! k = py_slice s (Some (int k + ni - 1)) (Some (int k + ni + no - 1))"
proof -
  let ?P = "\<lambda>i. int i + ni + no - 1 \<le> int (length s)"
  let ?ks = "takeWhile ?P [0 ..< length s]"
  note io = split_sequence_Inr[OF assms]
  have li: "length inputs = length ?ks" by (simp only: io(1) length_map)
  have lo: "length outputs = length ?ks" by (simp only: io(2) length_map)
  show "length inputs = length outputs" by (simp only: li lo)
  show "\<forall>k < length inputs.
           int k + ni + no - 1 \<le> int (length s)
         \<and> inputs ! k = py_slice s (Some (int k)) (Some (int k + ni))
         \<and> outputs ! k = py_slice s (Some (int k + ni - 1)) (Some (int k + ni + no - 1))"
  proof (intro allI impI)
    fix k assume "k < length inputs"
    then have k: "k < length ?ks" by (simp only: li)
    have nth: "?ks ! k = k" and fit: "?P k"
      using takeWhile_upt_nth[OF k] by blast+
    have a: "inputs ! k = py_slice s (Some (int k)) (Some (int k + ni))"
      by (simp only: io(1) nth_map[OF k] nth)
    have b: "outputs ! k = py_slice s (Some (int k + ni - 1)) (Some (int k + ni + no - 1))"
      by (simp only: io(2) nth_map[OF k] nth)
    from fit a b
    show "int k + ni + no - 1 \<le> int (length s)
         \<and> inputs ! k = py_slice s (Some (int k)) (Some (int k + ni))
         \<and> outputs ! k = py_slice s (Some (int k + ni - 1)) (Some (int k + ni + no - 1))"
      by (intro conjI)
  qed
qed

lemma overlap_valid:
  assumes "1 \<le> n_input" "1 \<le> n_output" "n_input + n_output \<le> int (length s)"
  shows "\<exists>inputs outputs.
           split_sequence pr s n_input n_output = Inr (inputs, outputs)
         \<and> length inputs = length outputs
         \<and> (\<forall>k < length inputs.
               int k + n_input + n_output - 1 \<le> int (length s)
             \<and> inputs ! k = take (nat n_input) (drop k s)
             \<and> length (inputs ! k) = nat n_input
             \<and> outputs ! k = take (nat n_output) (drop (k + nat n_input - 1) s)
             \<and> length (outputs ! k) = nat n_output
             \<and> inputs ! k \<noteq> [] \<and> outputs ! k \<noteq> []
             \<and> last (inputs ! k) = hd (outputs ! k))"
proof -
  let ?m = "n_windows s n_input n_output"
  obtain inputs outputs where
    r: "split_sequence pr s n_input n_output = Inr (inputs, outputs)"
    and li: "length inputs = ?m" and lo: "length outputs = ?m"
    and w: "\<forall>k < ?m. inputs ! k = take (nat n_input) (drop k s)
                 \<and> outputs ! k = take (nat n_output) (drop (k + nat n_input - 1) s)"
    using nth_windows[OF assms] by blast
  have eq: "length inputs = length outputs" by (simp only: li lo)
  have win: "\<forall>k < length inputs.
               int k + n_input + n_output - 1 \<le> int (length s)
             \<and> inputs ! k = take (nat n_input) (drop k s)
             \<and> length (inputs ! k) = nat n_input
             \<and> outputs ! k = take (nat n_output) (drop (k + nat n_input - 1) s)
             \<and> length (outputs ! k) = nat n_output
             \<and> inputs ! k \<noteq> [] \<and> outputs ! k \<noteq> []
             \<and> last (inputs ! k) = hd (outputs ! k)"
  proof (intro allI impI)
    fix k assume "k < length inputs"
    then have k: "k < ?m" by (simp only: li)
    from w k have ik: "inputs ! k = take (nat n_input) (drop k s)"
      and ok: "outputs ! k = take (nat n_output) (drop (k + nat n_input - 1) s)" by blast+
    have fit: "int k + n_input + n_output - 1 \<le> int (length s)"
      by (rule window_fit[OF assms(3) k])
    have leni: "length (inputs ! k) = nat n_input"
      by (simp only: ik length_input_window[OF assms k])
    have leno: "length (outputs ! k) = nat n_output"
      by (simp only: ok length_output_window[OF assms k])
    have nei: "inputs ! k \<noteq> []" using leni assms(1) by auto
    have neo: "outputs ! k \<noteq> []" using leno assms(2) by auto
    have ov: "last (inputs ! k) = hd (outputs ! k)"
      by (simp only: ik ok last_input_window[OF assms k] hd_output_window[OF assms k])
    from fit ik leni ok leno nei neo ov
    show "int k + n_input + n_output - 1 \<le> int (length s)
             \<and> inputs ! k = take (nat n_input) (drop k s)
             \<and> length (inputs ! k) = nat n_input
             \<and> outputs ! k = take (nat n_output) (drop (k + nat n_input - 1) s)
             \<and> length (outputs ! k) = nat n_output
             \<and> inputs ! k \<noteq> [] \<and> outputs ! k \<noteq> []
             \<and> last (inputs ! k) = hd (outputs ! k)"
      by (intro conjI)
  qed
  from r eq win show ?thesis by blast
qed

section \<open>The windows of \_split\_sequence\<close>

text \<open>
  Claim C1. For positive \<open>n_input\<close> and \<open>n_output\<close> and a sequence of at least
  \<open>n_input + n_output\<close> elements, \<open>_split_sequence\<close> returns its windows in
  ascending start index: window \<open>k\<close> has the input \<open>s[k : k + n_input]\<close> of length
  \<open>n_input\<close> and the output \<open>s[k + n_input - 1 : k + n_input + n_output - 1]\<close> of
  length \<open>n_output\<close>, and start index \<open>i\<close> has a window exactly when
  \<open>i + n_input + n_output - 1\<close> does not exceed the length of the sequence. For
  \<open>[1,2,3,4,5]\<close>, 3 and 2 the inputs are \<open>[[1,2,3],[2,3,4]]\<close> and the outputs
  \<open>[[3,4],[4,5]]\<close>.
\<close>

theorem split_sequence_windows:
  assumes "1 \<le> n_input" "1 \<le> n_output" "n_input + n_output \<le> int (length s)"
  shows "(\<exists>inputs outputs.
            split_sequence pr s n_input n_output = Inr (inputs, outputs)
          \<and> length inputs = length outputs
          \<and> (\<forall>i. (i < length inputs) = (int i + n_input + n_output - 1 \<le> int (length s)))
          \<and> (\<forall>k < length inputs.
                inputs ! k = py_slice s (Some (int k)) (Some (int k + n_input))
              \<and> length (inputs ! k) = nat n_input
              \<and> outputs ! k =
                  py_slice s (Some (int k + n_input - 1)) (Some (int k + n_input + n_output - 1))
              \<and> length (outputs ! k) = nat n_output))
       \<and> split_sequence (Inr ()) [1, 2, 3, 4, 5 :: int] 3 2
           = Inr ([[1, 2, 3], [2, 3, 4]], [[3, 4], [4, 5]])"
proof (rule conjI)
  let ?m = "n_windows s n_input n_output"
  obtain inputs outputs where
    r: "split_sequence pr s n_input n_output = Inr (inputs, outputs)"
    and li: "length inputs = ?m" and lo: "length outputs = ?m"
    and w: "\<forall>k < ?m. inputs ! k = take (nat n_input) (drop k s)
                 \<and> outputs ! k = take (nat n_output) (drop (k + nat n_input - 1) s)"
    using nth_windows[OF assms] by blast
  have emit: "\<forall>i. (i < length inputs) = (int i + n_input + n_output - 1 \<le> int (length s))"
    by (simp only: li fits_iff[OF assms(3)]) simp
  have win: "\<forall>k < length inputs.
                inputs ! k = py_slice s (Some (int k)) (Some (int k + n_input))
              \<and> length (inputs ! k) = nat n_input
              \<and> outputs ! k =
                  py_slice s (Some (int k + n_input - 1)) (Some (int k + n_input + n_output - 1))
              \<and> length (outputs ! k) = nat n_output"
  proof (intro allI impI)
    fix k assume "k < length inputs"
    then have k: "k < ?m" by (simp only: li)
    from w k have ik: "inputs ! k = take (nat n_input) (drop k s)"
      and ok: "outputs ! k = take (nat n_output) (drop (k + nat n_input - 1) s)" by blast+
    show "inputs ! k = py_slice s (Some (int k)) (Some (int k + n_input))
              \<and> length (inputs ! k) = nat n_input
              \<and> outputs ! k =
                  py_slice s (Some (int k + n_input - 1)) (Some (int k + n_input + n_output - 1))
              \<and> length (outputs ! k) = nat n_output"
      by (simp only: ik ok input_window_slice[OF assms k] output_window_slice[OF assms k]
            length_input_window[OF assms k] length_output_window[OF assms k] simp_thms)
  qed
  have eq: "length inputs = length outputs" by (simp only: li lo)
  from r eq emit win
  show "\<exists>inputs outputs.
            split_sequence pr s n_input n_output = Inr (inputs, outputs)
          \<and> length inputs = length outputs
          \<and> (\<forall>i. (i < length inputs) = (int i + n_input + n_output - 1 \<le> int (length s)))
          \<and> (\<forall>k < length inputs.
                inputs ! k = py_slice s (Some (int k)) (Some (int k + n_input))
              \<and> length (inputs ! k) = nat n_input
              \<and> outputs ! k =
                  py_slice s (Some (int k + n_input - 1)) (Some (int k + n_input + n_output - 1))
              \<and> length (outputs ! k) = nat n_output)"
    by blast
next
  show "split_sequence (Inr ()) [1, 2, 3, 4, 5 :: int] 3 2
           = Inr ([[1, 2, 3], [2, 3, 4]], [[3, 4], [4, 5]])"
    by (rule docstring_example)
qed

text \<open>The theorem at a sequence of six elements with windows of two and two.\<close>

theorem split_sequence_windows_witness:
  "1 \<le> (2::int) \<and> 1 \<le> (2::int) \<and> 2 + 2 \<le> int (length [10, 20, 30, 40, 50, 60 :: int])
   \<and> (\<exists>inputs outputs.
         split_sequence (Inr ()) [10, 20, 30, 40, 50, 60 :: int] 2 2 = Inr (inputs, outputs)
       \<and> length inputs = length outputs
       \<and> (\<forall>i. (i < length inputs) = (int i + 2 + 2 - 1 \<le> int (length [10, 20, 30, 40, 50, 60 :: int]))))"
proof -
  have h: "1 \<le> (2::int)" "1 \<le> (2::int)" "2 + 2 \<le> int (length [10, 20, 30, 40, 50, 60 :: int])"
    by simp_all
  from split_sequence_windows[OF h] show ?thesis
    using h by blast
qed

text \<open>
  Claim C4. For a sequence of at least \<open>n_input + n_output\<close> elements, whatever
  \<open>_split_sequence\<close> returns has as many inputs as outputs, and window \<open>k\<close> lies
  inside the sequence: its span ends at or before the end of the sequence, and its two
  parts are the slices of that span. For valid window lengths (\<open>n_input\<close> and
  \<open>n_output\<close> at least 1) \<open>_split_sequence\<close> does return, both parts of every window
  have their full lengths, and the last element of each input is the first element of
  its output.
\<close>

theorem split_sequence_overlap:
  assumes "n_input + n_output \<le> int (length s)"
  shows "(\<forall>inputs outputs.
            split_sequence pr s n_input n_output = Inr (inputs, outputs) \<longrightarrow>
              length inputs = length outputs
            \<and> (\<forall>k < length inputs.
                  int k + n_input + n_output - 1 \<le> int (length s)
                \<and> inputs ! k = py_slice s (Some (int k)) (Some (int k + n_input))
                \<and> outputs ! k =
                    py_slice s (Some (int k + n_input - 1))
                      (Some (int k + n_input + n_output - 1))))
       \<and> (1 \<le> n_input \<and> 1 \<le> n_output \<longrightarrow>
            (\<exists>inputs outputs.
               split_sequence pr s n_input n_output = Inr (inputs, outputs)
             \<and> length inputs = length outputs
             \<and> (\<forall>k < length inputs.
                   int k + n_input + n_output - 1 \<le> int (length s)
                 \<and> inputs ! k = take (nat n_input) (drop k s)
                 \<and> length (inputs ! k) = nat n_input
                 \<and> outputs ! k = take (nat n_output) (drop (k + nat n_input - 1) s)
                 \<and> length (outputs ! k) = nat n_output
                 \<and> inputs ! k \<noteq> [] \<and> outputs ! k \<noteq> []
                 \<and> last (inputs ! k) = hd (outputs ! k))))"
proof (rule conjI)
  show "\<forall>inputs outputs.
            split_sequence pr s n_input n_output = Inr (inputs, outputs) \<longrightarrow>
              length inputs = length outputs
            \<and> (\<forall>k < length inputs.
                  int k + n_input + n_output - 1 \<le> int (length s)
                \<and> inputs ! k = py_slice s (Some (int k)) (Some (int k + n_input))
                \<and> outputs ! k =
                    py_slice s (Some (int k + n_input - 1))
                      (Some (int k + n_input + n_output - 1)))"
  proof (rule allI, rule allI, rule impI, rule conjI)
    fix inputs outputs
    assume r: "split_sequence pr s n_input n_output = Inr (inputs, outputs)"
    show "length inputs = length outputs"
      by (rule split_sequence_Inr_windows(1)[OF r])
    show "\<forall>k < length inputs.
                  int k + n_input + n_output - 1 \<le> int (length s)
                \<and> inputs ! k = py_slice s (Some (int k)) (Some (int k + n_input))
                \<and> outputs ! k =
                    py_slice s (Some (int k + n_input - 1))
                      (Some (int k + n_input + n_output - 1))"
      by (rule split_sequence_Inr_windows(2)[OF r])
  qed
next
  show "1 \<le> n_input \<and> 1 \<le> n_output \<longrightarrow>
            (\<exists>inputs outputs.
               split_sequence pr s n_input n_output = Inr (inputs, outputs)
             \<and> length inputs = length outputs
             \<and> (\<forall>k < length inputs.
                   int k + n_input + n_output - 1 \<le> int (length s)
                 \<and> inputs ! k = take (nat n_input) (drop k s)
                 \<and> length (inputs ! k) = nat n_input
                 \<and> outputs ! k = take (nat n_output) (drop (k + nat n_input - 1) s)
                 \<and> length (outputs ! k) = nat n_output
                 \<and> inputs ! k \<noteq> [] \<and> outputs ! k \<noteq> []
                 \<and> last (inputs ! k) = hd (outputs ! k)))"
  proof (rule impI)
    assume "1 \<le> n_input \<and> 1 \<le> n_output"
    then have v: "1 \<le> n_input" "1 \<le> n_output" by simp_all
    show "\<exists>inputs outputs.
               split_sequence pr s n_input n_output = Inr (inputs, outputs)
             \<and> length inputs = length outputs
             \<and> (\<forall>k < length inputs.
                   int k + n_input + n_output - 1 \<le> int (length s)
                 \<and> inputs ! k = take (nat n_input) (drop k s)
                 \<and> length (inputs ! k) = nat n_input
                 \<and> outputs ! k = take (nat n_output) (drop (k + nat n_input - 1) s)
                 \<and> length (outputs ! k) = nat n_output
                 \<and> inputs ! k \<noteq> [] \<and> outputs ! k \<noteq> []
                 \<and> last (inputs ! k) = hd (outputs ! k))"
      by (rule overlap_valid[OF v assms])
  qed
qed

text \<open>The theorem at a sequence of seven elements with windows of three and two.\<close>

theorem split_sequence_overlap_witness:
  "3 + 2 \<le> int (length [1, 2, 3, 4, 5, 6, 7 :: int]) \<and> 1 \<le> (3::int) \<and> 1 \<le> (2::int)
   \<and> (\<exists>inputs outputs.
         split_sequence (Inr ()) [1, 2, 3, 4, 5, 6, 7 :: int] 3 2 = Inr (inputs, outputs)
       \<and> length inputs = length outputs)"
proof -
  have h: "3 + 2 \<le> int (length [1, 2, 3, 4, 5, 6, 7 :: int])" by simp
  have v: "1 \<le> (3::int) \<and> 1 \<le> (2::int)" by simp
  from split_sequence_overlap[OF h] v
  have "\<exists>inputs outputs.
         split_sequence (Inr ()) [1, 2, 3, 4, 5, 6, 7 :: int] 3 2 = Inr (inputs, outputs)
       \<and> length inputs = length outputs"
    by blast
  with h v show ?thesis by (intro conjI) simp_all
qed

text \<open>
  Claim C5, as amended. The claim that a sequence of exactly \<open>n_input + n_output\<close>
  elements gives one window fails on the docstring's own example, where five elements
  with 3 and 2 give two windows. For \<open>n_input\<close> and \<open>n_output\<close> at least 1 such a
  sequence gives exactly two windows, those at start indices 0 and 1.
\<close>

theorem exact_length_two_windows:
  assumes "1 \<le> n_input" "1 \<le> n_output" "int (length s) = n_input + n_output"
  shows "\<exists>inputs outputs.
           split_sequence pr s n_input n_output = Inr (inputs, outputs)
         \<and> length inputs = 2 \<and> length outputs = 2
         \<and> inputs = [take (nat n_input) s, take (nat n_input) (drop 1 s)]
         \<and> outputs = [take (nat n_output) (drop (nat n_input - 1) s),
                       take (nat n_output) (drop (nat n_input) s)]"
proof -
  have le: "n_input + n_output \<le> int (length s)" using assms(3) by simp
  have n: "n_windows s n_input n_output = 2" by (rule n_windows_exact[OF assms(3)])
  have one: "Suc (nat n_input) - 1 = nat n_input" by simp
  show ?thesis
    by (simp add: split_sequence_eq[OF assms(1,2) le] n upt_two)
qed

text \<open>
  The theorem at the docstring's example.
\<close>

theorem exact_length_two_windows_witness:
  "1 \<le> (3::int) \<and> 1 \<le> (2::int) \<and> int (length [1, 2, 3, 4, 5 :: int]) = 3 + 2
   \<and> (\<exists>inputs outputs.
         split_sequence (Inr ()) [1, 2, 3, 4, 5 :: int] 3 2 = Inr (inputs, outputs)
       \<and> length inputs = 2 \<and> length outputs = 2)"
proof -
  have h: "1 \<le> (3::int)" "1 \<le> (2::int)" "int (length [1, 2, 3, 4, 5 :: int]) = 3 + 2"
    by simp_all
  from exact_length_two_windows[OF h] show ?thesis
    using h by blast
qed

text \<open>
  The docstring's example has exactly \<open>n_input + n_output\<close> elements and two windows,
  not one.
\<close>

theorem exact_length_one_window_counterexample:
  "int (length [1, 2, 3, 4, 5 :: int]) = 3 + 2
   \<and> split_sequence (Inr ()) [1, 2, 3, 4, 5 :: int] 3 2 = Inr ([[1, 2, 3], [2, 3, 4]], [[3, 4], [4, 5]])
   \<and> length (fst (projr (split_sequence (Inr ()) [1, 2, 3, 4, 5 :: int] 3 2))) \<noteq> 1"
  by (simp add: docstring_example)

section \<open>The length guard\<close>

text \<open>
  Claim C6. A sequence shorter than \<open>n_input + n_output\<close> makes \<open>_split_sequence\<close>
  raise \<open>SystemExit\<close> through \<open>sys.exit()\<close>. Whatever its \<^verbatim>\<open>print\<close> does, the
  call ends with an exception and returns no result, empty or other; and
  \<open>train_val_split\<close>, which catches nothing, ends in the same way when its train
  partition is such a sequence.
\<close>

theorem split_sequence_too_short:
  assumes "int (length s) < n_input + n_output"
  shows "split_sequence (Inr ()) s n_input n_output = Inl (SystemExit None)
       \<and> (\<forall>pr. \<exists>e. split_sequence pr s n_input n_output = Inl e)
       \<and> (\<forall>pr r. split_sequence pr s n_input n_output \<noteq> Inr r)
       \<and> (\<forall>data val_samples.
             data_train data n_input n_output val_samples = s \<longrightarrow>
               train_val_split (Inr ()) data n_input n_output val_samples
                 = Inl (SystemExit None)
             \<and> (\<forall>pr r. train_val_split pr data n_input n_output val_samples \<noteq> Inr r))"
proof -
  have a: "split_sequence (Inr ()) s n_input n_output = Inl (SystemExit None)"
    by (rule split_sequence_short[OF assms])
  have b: "\<forall>pr. \<exists>e. split_sequence pr s n_input n_output = Inl e"
    using split_sequence_short_any[OF assms] by blast
  have c: "\<forall>pr r. split_sequence pr s n_input n_output \<noteq> Inr r"
  proof (intro allI)
    fix pr r
    obtain e where "split_sequence pr s n_input n_output = Inl e"
      using b by blast
    then show "split_sequence pr s n_input n_output \<noteq> Inr r" by simp
  qed
  have d: "\<forall>data val_samples.
             data_train data n_input n_output val_samples = s \<longrightarrow>
               train_val_split (Inr ()) data n_input n_output val_samples
                 = Inl (SystemExit None)
             \<and> (\<forall>pr r. train_val_split pr data n_input n_output val_samples \<noteq> Inr r)"
  proof (intro allI impI conjI)
    fix data val_samples
    assume t: "data_train data n_input n_output val_samples = s"
    show "train_val_split (Inr ()) data n_input n_output val_samples = Inl (SystemExit None)"
      by (simp add: train_val_split_def t a)
    fix pr r
    obtain e where "split_sequence pr s n_input n_output = Inl e"
      using b by blast
    then show "train_val_split pr data n_input n_output val_samples \<noteq> Inr r"
      by (simp add: train_val_split_def t)
  qed
  from a b c d show ?thesis by (intro conjI)
qed

text \<open>
  The theorem at four elements with windows of three and two, and at a table of ten
  rows whose train partition is those four.
\<close>

theorem split_sequence_too_short_witness:
  "int (length [1, 2, 3, 4 :: int]) < 3 + 2
   \<and> split_sequence (Inr ()) [1, 2, 3, 4 :: int] 3 2 = Inl (SystemExit None)
   \<and> data_train [1, 2, 3, 4, 5, 6, 7, 8, 9, 10 :: int] 3 2 3 = [1, 2, 3, 4]
   \<and> train_val_split (Inr ()) [1, 2, 3, 4, 5, 6, 7, 8, 9, 10 :: int] 3 2 3
       = Inl (SystemExit None)"
proof -
  have h: "int (length [1, 2, 3, 4 :: int]) < 3 + 2" by simp
  have d: "data_train [1, 2, 3, 4, 5, 6, 7, 8, 9, 10 :: int] 3 2 3 = [1, 2, 3, 4]"
    by (simp add: data_train_def split_idx_def py_slice_def adjust_index_def)
  from split_sequence_too_short[OF h] show ?thesis
    using h d by blast
qed




text \<open>
  Claim C10. For \<open>n_input\<close> and \<open>n_output\<close> at least 1 and a sequence of exactly
  \<open>n_input + n_output - 1\<close> elements, \<open>_split_sequence\<close> exits through its length
  guard, although the loop on its own would emit exactly one window, with an input of
  \<open>n_input\<close> and an output of \<open>n_output\<close> elements; and \<open>train_val_split\<close> with
  \<open>val_samples = 1\<close> exits in the same way for every table. Whatever the guard's
  \<^verbatim>\<open>print\<close> does, neither call returns a result.
\<close>

theorem one_window_length_aborts:
  assumes "1 \<le> n_input" "1 \<le> n_output" "int (length s) = n_input + n_output - 1"
  shows "split_sequence (Inr ()) s n_input n_output = Inl (SystemExit None)
       \<and> (\<forall>pr r. split_sequence pr s n_input n_output \<noteq> Inr r)
       \<and> split_loop s n_input n_output [0 ..< length s] [] []
           = ([take (nat n_input) s], [take (nat n_output) (drop (nat n_input - 1) s)])
       \<and> length (take (nat n_input) s) = nat n_input
       \<and> length (take (nat n_output) (drop (nat n_input - 1) s)) = nat n_output
       \<and> (\<forall>data. train_val_split (Inr ()) data n_input n_output 1 = Inl (SystemExit None))
       \<and> (\<forall>pr data r. train_val_split pr data n_input n_output 1 \<noteq> Inr r)"
proof -
  have short: "int (length s) < n_input + n_output" using assms(3) by simp
  have a: "split_sequence (Inr ()) s n_input n_output = Inl (SystemExit None)"
    by (rule split_sequence_short[OF short])
  have b: "\<forall>pr r. split_sequence pr s n_input n_output \<noteq> Inr r"
  proof (intro allI)
    fix pr r
    obtain e where "split_sequence pr s n_input n_output = Inl e"
      using split_sequence_short_any[OF short] by blast
    then show "split_sequence pr s n_input n_output \<noteq> Inr r" by simp
  qed
  have c: "split_loop s n_input n_output [0 ..< length s] [] []
           = ([take (nat n_input) s], [take (nat n_output) (drop (nat n_input - 1) s)])"
    by (rule split_loop_single[OF assms])
  have l1: "length (take (nat n_input) s) = nat n_input"
    using assms by simp
  have l2: "length (take (nat n_output) (drop (nat n_input - 1) s)) = nat n_output"
    using assms by simp
  have d: "\<forall>data. train_val_split (Inr ()) data n_input n_output 1 = Inl (SystemExit None)"
    using train_val_split_one(1)[OF assms(1,2)] by blast
  have e: "\<forall>pr data r. train_val_split pr data n_input n_output 1 \<noteq> Inr r"
  proof (intro allI)
    fix pr data r
    obtain e where "train_val_split pr data n_input n_output 1 = Inl e"
      using train_val_split_one(2)[OF assms(1,2)] by blast
    then show "train_val_split pr data n_input n_output 1 \<noteq> Inr r" by simp
  qed
  from a b c l1 l2 d e show ?thesis by (intro conjI)
qed

text \<open>
  The theorem at four elements with windows of three and two, and at a table of ten
  rows.
\<close>

theorem one_window_length_aborts_witness:
  "1 \<le> (3::int) \<and> 1 \<le> (2::int) \<and> int (length [1, 2, 3, 4 :: int]) = 3 + 2 - 1
   \<and> split_sequence (Inr ()) [1, 2, 3, 4 :: int] 3 2 = Inl (SystemExit None)
   \<and> split_loop [1, 2, 3, 4 :: int] 3 2 [0 ..< length [1, 2, 3, 4 :: int]] [] []
       = ([[1, 2, 3]], [[3, 4]])
   \<and> train_val_split (Inr ()) [1, 2, 3, 4, 5, 6, 7, 8, 9, 10 :: int] 3 2 1
       = Inl (SystemExit None)"
proof -
  have h: "1 \<le> (3::int)" "1 \<le> (2::int)" "int (length [1, 2, 3, 4 :: int]) = 3 + 2 - 1"
    by simp_all
  note t = one_window_length_aborts[OF h]
  have a: "split_sequence (Inr ()) [1, 2, 3, 4 :: int] 3 2 = Inl (SystemExit None)"
    using t by blast
  have "split_loop [1, 2, 3, 4 :: int] 3 2 [0 ..< length [1, 2, 3, 4 :: int]] [] []
        = ([take (nat 3) [1, 2, 3, 4]], [take (nat 2) (drop (nat 3 - 1) [1, 2, 3, 4])])"
    using t by blast
  moreover have "take (nat 3) [1, 2, 3, 4 :: int] = [1, 2, 3]"
    "take (nat 2) (drop (nat 3 - 1) [1, 2, 3, 4 :: int]) = [3, 4]"
    by simp_all
  ultimately have b: "split_loop [1, 2, 3, 4 :: int] 3 2 [0 ..< length [1, 2, 3, 4 :: int]] [] []
        = ([[1, 2, 3]], [[3, 4]])"
    by (simp only:)
  have c: "train_val_split (Inr ()) [1, 2, 3, 4, 5, 6, 7, 8, 9, 10 :: int] 3 2 1
             = Inl (SystemExit None)"
    using t by blast
  show ?thesis
    using h a b c by (intro conjI)
qed

section \<open>The partition of train\_val\_split\<close>

text \<open>
  Claim C2. \<open>train_val_split\<close> cuts the data at the split index
  \<open>len(data) - (n_input + n_output - 1) - (val_samples - 1)\<close>: the train partition is
  the slice before that index, the validation partition the slice from it onward, the
  two together are the data again, so their lengths add up to its length, and for an
  index within \<open>0 .. len(data)\<close> they are the first \<open>split_idx\<close> rows and the rest.
  The four arrays that \<open>train_val_split\<close> returns are the windows of these two
  partitions.
\<close>

theorem train_val_split_partition:
  "split_idx data n_input n_output val_samples
     = int (length data) - (n_input + n_output - 1) - (val_samples - 1)
   \<and> data_train data n_input n_output val_samples
       = py_slice data None (Some (split_idx data n_input n_output val_samples))
   \<and> data_valid data n_input n_output val_samples
       = py_slice data (Some (split_idx data n_input n_output val_samples)) None
   \<and> data_train data n_input n_output val_samples @ data_valid data n_input n_output val_samples
       = data
   \<and> length (data_train data n_input n_output val_samples)
       + length (data_valid data n_input n_output val_samples) = length data
   \<and> (0 \<le> split_idx data n_input n_output val_samples
        \<and> split_idx data n_input n_output val_samples \<le> int (length data) \<longrightarrow>
          data_train data n_input n_output val_samples
            = take (nat (split_idx data n_input n_output val_samples)) data
        \<and> data_valid data n_input n_output val_samples
            = drop (nat (split_idx data n_input n_output val_samples)) data)
   \<and> (\<forall>x_train y_train x_valid y_valid.
         train_val_split pr data n_input n_output val_samples
           = Inr (x_train, y_train, x_valid, y_valid) \<longrightarrow>
         split_sequence pr (data_train data n_input n_output val_samples) n_input n_output
           = Inr (x_train, y_train)
       \<and> split_sequence pr (data_valid data n_input n_output val_samples) n_input n_output
           = Inr (x_valid, y_valid))"
proof -
  let ?k = "split_idx data n_input n_output val_samples"
  let ?tr = "data_train data n_input n_output val_samples"
  let ?va = "data_valid data n_input n_output val_samples"
  have idx: "?k = int (length data) - (n_input + n_output - 1) - (val_samples - 1)"
    by (simp add: split_idx_def)
  have tr: "?tr = py_slice data None (Some ?k)" by (simp only: data_train_def)
  have va: "?va = py_slice data (Some ?k) None" by (simp only: data_valid_def)
  have app: "?tr @ ?va = data" by (simp only: tr va py_slice_partition)
  have "length (?tr @ ?va) = length data" by (simp only: app)
  then have len: "length ?tr + length ?va = length data" by simp
  have inr: "0 \<le> ?k \<and> ?k \<le> int (length data) \<longrightarrow>
               ?tr = take (nat ?k) data \<and> ?va = drop (nat ?k) data"
    by (simp only: tr va) (simp add: py_slice_prefix_in_range py_slice_suffix_in_range)
  have ret: "\<forall>x_train y_train x_valid y_valid.
         train_val_split pr data n_input n_output val_samples
           = Inr (x_train, y_train, x_valid, y_valid) \<longrightarrow>
         split_sequence pr ?tr n_input n_output = Inr (x_train, y_train)
       \<and> split_sequence pr ?va n_input n_output = Inr (x_valid, y_valid)"
    by (auto simp: train_val_split_def split: sum.splits prod.splits)
  from idx tr va app len inr ret show ?thesis by (intro conjI)
qed

text \<open>
  The theorem at a table of twelve rows, windows of three and two and three validation
  samples: the split index is 6.
\<close>

theorem train_val_split_partition_witness:
  "split_idx [1, 2, 3, 4, 5, 6, 7, 8, 9, 10, 11, 12 :: int] 3 2 3 = 6
   \<and> data_train [1, 2, 3, 4, 5, 6, 7, 8, 9, 10, 11, 12 :: int] 3 2 3 = [1, 2, 3, 4, 5, 6]
   \<and> data_valid [1, 2, 3, 4, 5, 6, 7, 8, 9, 10, 11, 12 :: int] 3 2 3 = [7, 8, 9, 10, 11, 12]
   \<and> train_val_split (Inr ()) [1, 2, 3, 4, 5, 6, 7, 8, 9, 10, 11, 12 :: int] 3 2 3
       = Inr ([[1, 2, 3], [2, 3, 4], [3, 4, 5]], [[3, 4], [4, 5], [5, 6]],
              [[7, 8, 9], [8, 9, 10], [9, 10, 11]], [[9, 10], [10, 11], [11, 12]])
   \<and> split_sequence (Inr ()) (data_valid [1, 2, 3, 4, 5, 6, 7, 8, 9, 10, 11, 12 :: int] 3 2 3) 3 2
       = Inr ([[7, 8, 9], [8, 9, 10], [9, 10, 11]], [[9, 10], [10, 11], [11, 12]])"
proof -
  note t = train_val_split_partition[of "[1, 2, 3, 4, 5, 6, 7, 8, 9, 10, 11, 12 :: int]" 3 2 3]
  have k: "split_idx [1, 2, 3, 4, 5, 6, 7, 8, 9, 10, 11, 12 :: int] 3 2 3 = 6"
    using t by simp
  have r: "0 \<le> split_idx [1, 2, 3, 4, 5, 6, 7, 8, 9, 10, 11, 12 :: int] 3 2 3
           \<and> split_idx [1, 2, 3, 4, 5, 6, 7, 8, 9, 10, 11, 12 :: int] 3 2 3
               \<le> int (length [1, 2, 3, 4, 5, 6, 7, 8, 9, 10, 11, 12 :: int])"
    by (simp only: k) simp
  from t r have
    "data_train [1, 2, 3, 4, 5, 6, 7, 8, 9, 10, 11, 12 :: int] 3 2 3
       = take (nat (split_idx [1, 2, 3, 4, 5, 6, 7, 8, 9, 10, 11, 12 :: int] 3 2 3))
           [1, 2, 3, 4, 5, 6, 7, 8, 9, 10, 11, 12]"
    "data_valid [1, 2, 3, 4, 5, 6, 7, 8, 9, 10, 11, 12 :: int] 3 2 3
       = drop (nat (split_idx [1, 2, 3, 4, 5, 6, 7, 8, 9, 10, 11, 12 :: int] 3 2 3))
           [1, 2, 3, 4, 5, 6, 7, 8, 9, 10, 11, 12]"
    by blast+
  then have d: "data_train [1, 2, 3, 4, 5, 6, 7, 8, 9, 10, 11, 12 :: int] 3 2 3
                  = [1, 2, 3, 4, 5, 6]"
    "data_valid [1, 2, 3, 4, 5, 6, 7, 8, 9, 10, 11, 12 :: int] 3 2 3 = [7, 8, 9, 10, 11, 12]"
    using k by (simp_all add: numeral_eq_Suc)
  have e: "train_val_split (Inr ()) [1, 2, 3, 4, 5, 6, 7, 8, 9, 10, 11, 12 :: int] 3 2 3
       = Inr ([[1, 2, 3], [2, 3, 4], [3, 4, 5]], [[3, 4], [4, 5], [5, 6]],
              [[7, 8, 9], [8, 9, 10], [9, 10, 11]], [[9, 10], [10, 11], [11, 12]])"
    by code_simp
  from t e have v:
    "split_sequence (Inr ()) (data_valid [1, 2, 3, 4, 5, 6, 7, 8, 9, 10, 11, 12 :: int] 3 2 3) 3 2
       = Inr ([[7, 8, 9], [8, 9, 10], [9, 10, 11]], [[9, 10], [10, 11], [11, 12]])"
    by blast
  from k d e v show ?thesis by (intro conjI)
qed

text \<open>
  Claim C3, as amended. For \<open>n_input\<close> and \<open>n_output\<close> at least 1, a split index
  that is not negative (\<open>len(data) \<ge> n_input + n_output + val_samples - 2\<close>) and a
  validation partition of at least \<open>n_input + n_output\<close> rows, windowing the validation
  partition gives exactly \<open>val_samples\<close> windows; and when the train partition is long
  enough too and the report of the sample counts is printed, \<open>train_val_split\<close> returns
  with exactly \<open>val_samples\<close> validation windows.
\<close>

theorem validation_windows_count:
  assumes "1 \<le> n_input" "1 \<le> n_output"
      and "0 \<le> split_idx data n_input n_output val_samples"
      and "n_input + n_output \<le> int (length (data_valid data n_input n_output val_samples))"
  shows "(\<exists>x_valid y_valid.
            split_sequence pr (data_valid data n_input n_output val_samples) n_input n_output
              = Inr (x_valid, y_valid)
          \<and> int (length x_valid) = val_samples \<and> int (length y_valid) = val_samples)
       \<and> (n_input + n_output \<le> int (length (data_train data n_input n_output val_samples)) \<longrightarrow>
            (\<exists>x_train y_train x_valid y_valid.
               train_val_split (Inr ()) data n_input n_output val_samples
                 = Inr (x_train, y_train, x_valid, y_valid)
             \<and> int (length x_valid) = val_samples \<and> int (length y_valid) = val_samples))"
proof -
  let ?va = "data_valid data n_input n_output val_samples"
  let ?tr = "data_train data n_input n_output val_samples"
  have two: "2 \<le> n_input + n_output" using assms(1,2) by linarith
  have len: "int (length ?va) = n_input + n_output + val_samples - 2"
    by (rule length_data_valid[OF assms(3) two assms(4)])
  have n: "int (n_windows ?va n_input n_output) = val_samples"
    using len assms(4) by (simp add: n_windows_def)
  have va: "\<exists>x_valid y_valid.
            split_sequence pr ?va n_input n_output = Inr (x_valid, y_valid)
          \<and> int (length x_valid) = val_samples \<and> int (length y_valid) = val_samples"
    using n by (simp add: split_sequence_eq[OF assms(1,2,4)])
  have all: "n_input + n_output \<le> int (length ?tr) \<longrightarrow>
            (\<exists>x_train y_train x_valid y_valid.
               train_val_split (Inr ()) data n_input n_output val_samples
                 = Inr (x_train, y_train, x_valid, y_valid)
             \<and> int (length x_valid) = val_samples \<and> int (length y_valid) = val_samples)"
  proof
    assume tr: "n_input + n_output \<le> int (length ?tr)"
    show "\<exists>x_train y_train x_valid y_valid.
               train_val_split (Inr ()) data n_input n_output val_samples
                 = Inr (x_train, y_train, x_valid, y_valid)
             \<and> int (length x_valid) = val_samples \<and> int (length y_valid) = val_samples"
      using n
      by (simp add: train_val_split_def split_sequence_eq[OF assms(1,2,4)]
            split_sequence_eq[OF assms(1,2) tr])
  qed
  from va all show ?thesis by (rule conjI)
qed

text \<open>
  The theorem at a table of twelve rows, windows of three and two and three validation
  samples.
\<close>

theorem validation_windows_count_witness:
  "1 \<le> (3::int) \<and> 1 \<le> (2::int)
   \<and> 0 \<le> split_idx [1, 2, 3, 4, 5, 6, 7, 8, 9, 10, 11, 12 :: int] 3 2 3
   \<and> 3 + 2 \<le> int (length (data_valid [1, 2, 3, 4, 5, 6, 7, 8, 9, 10, 11, 12 :: int] 3 2 3))
   \<and> 3 + 2 \<le> int (length (data_train [1, 2, 3, 4, 5, 6, 7, 8, 9, 10, 11, 12 :: int] 3 2 3))
   \<and> (\<exists>x_train y_train x_valid y_valid.
         train_val_split (Inr ()) [1, 2, 3, 4, 5, 6, 7, 8, 9, 10, 11, 12 :: int] 3 2 3
           = Inr (x_train, y_train, x_valid, y_valid)
       \<and> int (length x_valid) = 3 \<and> int (length y_valid) = 3)"
proof -
  have h: "1 \<le> (3::int)" "1 \<le> (2::int)"
    "0 \<le> split_idx [1, 2, 3, 4, 5, 6, 7, 8, 9, 10, 11, 12 :: int] 3 2 3"
    "3 + 2 \<le> int (length (data_valid [1, 2, 3, 4, 5, 6, 7, 8, 9, 10, 11, 12 :: int] 3 2 3))"
    by (simp_all add: split_idx_def data_valid_def py_slice_def adjust_index_def)
  have tr: "3 + 2 \<le> int (length (data_train [1, 2, 3, 4, 5, 6, 7, 8, 9, 10, 11, 12 :: int] 3 2 3))"
    by (simp add: split_idx_def data_train_def py_slice_def adjust_index_def)
  from validation_windows_count[OF h] tr show ?thesis
    using h by blast
qed

text \<open>
  Without the bound on the split index the claim fails: for four rows, windows of one
  and one and \<open>val_samples = 6\<close> the split index is \<open>-2\<close>, which the slices count
  from the end. The validation partition \<open>[3, 4]\<close> satisfies the length precondition,
  and it has two windows, not six; \<open>train_val_split\<close> returns them.
\<close>

theorem validation_windows_count_counterexample:
  "1 + 1 \<le> int (length (data_valid [1, 2, 3, 4 :: int] 1 1 6))
   \<and> split_sequence (Inr ()) (data_valid [1, 2, 3, 4 :: int] 1 1 6) 1 1 = Inr ([[3], [4]], [[3], [4]])
   \<and> train_val_split (Inr ()) [1, 2, 3, 4 :: int] 1 1 6
       = Inr ([[1], [2]], [[1], [2]], [[3], [4]], [[3], [4]])
   \<and> int (length [[3], [4 :: int]]) \<noteq> 6"
proof -
  have k: "split_idx [1, 2, 3, 4 :: int] 1 1 6 = - 2"
    by (simp add: split_idx_def)
  have va: "data_valid [1, 2, 3, 4 :: int] 1 1 6 = [3, 4]"
    by (simp add: data_valid_def k py_slice_def adjust_index_def)
  have tr: "data_train [1, 2, 3, 4 :: int] 1 1 6 = [1, 2]"
    by (simp add: data_train_def k py_slice_def adjust_index_def)
  have n: "n_windows [3, 4 :: int] 1 1 = 2" "n_windows [1, 2 :: int] 1 1 = 2"
    by (simp_all add: n_windows_def)
  have s1: "split_sequence (Inr ()) [3, 4 :: int] 1 1 = Inr ([[3], [4]], [[3], [4]])"
    by (simp add: split_sequence_eq n upt_two)
  have s2: "split_sequence (Inr ()) [1, 2 :: int] 1 1 = Inr ([[1], [2]], [[1], [2]])"
    by (simp add: split_sequence_eq n upt_two)
  show ?thesis
    by (simp add: train_val_split_def va tr s1 s2)
qed

section \<open>The index check and the time axis of plot\_validation\<close>




text \<open>
  Claim C8, as amended. In the chart of sample \<open>i\<close> the input window has the time
  offsets \<open>0 .. len(input) - 1\<close>, and the forecast and the expected output both start
  at offset \<open>len(input) - 1\<close>, the offset of the last input point, and run for
  \<open>len(forecast)\<close> steps.
\<close>

theorem plot_validation_offsets:
  assumes "np_index (predict val_set) i = Inr x_pred"
      and "np_index val_set i = Inr val_i"
      and "np_index y_test i = Inr y_i"
      and "length y_i = length x_pred"
  shows "\<exists>c. plot_validation predict val_set y_test i = Inr c
       \<and> map fst (model_input c) = [0 .. int (length val_i) - 1]
       \<and> map snd (model_input c) = val_i
       \<and> map fst (model_output c)
           = [int (length val_i) - 1 .. int (length val_i) - 1 + int (length x_pred) - 1]
       \<and> map snd (model_output c) = x_pred
       \<and> length (model_output c) = length x_pred
       \<and> map fst (expected c)
           = [int (length val_i) - 1 .. int (length val_i) - 1 + int (length x_pred) - 1]
       \<and> map snd (expected c) = y_i
       \<and> length (expected c) = length x_pred"
proof -
  have le: "i \<le> int (length y_test)"
    using np_index_Inr_bound[OF assms(3)] by simp
  have e: "int (length val_i) - 1 + int (length x_pred) - 1
           = int (length val_i) + int (length x_pred) - 2" by simp
  have l1: "length [int (length val_i) - 1 .. int (length val_i) + int (length x_pred) - 2]
            = length x_pred" by simp
  have l2: "length [int (length val_i) - 1 .. int (length val_i) + int (length x_pred) - 2]
            = length y_i" by (simp add: assms(4))
  have l3: "length [0 .. int (length val_i) - 1] = length val_i" by simp
  show ?thesis
    by (simp only: plot_validation_ok[where predict = predict and val_set = val_set, OF assms le]
          e sum.inject simp_thms ex_simps chart.simps map_fst_zip[OF l1] map_fst_zip[OF l2]
          map_fst_zip[OF l3] map_snd_zip[OF l1] map_snd_zip[OF l2] map_snd_zip[OF l3]
          length_zip l1 l2 min.idem assms(4))
qed

text \<open>
  The theorem at an input window of three points and a forecast of two.
\<close>

theorem plot_validation_offsets_witness:
  "np_index (fixed_model [[30, 40]] [[1, 2, 3 :: int]]) 0 = Inr [30, 40]
   \<and> np_index [[1, 2, 3 :: int]] 0 = Inr [1, 2, 3]
   \<and> np_index [[3, 4 :: int]] 0 = Inr [3, 4]
   \<and> length [3, 4 :: int] = length [30, 40 :: int]
   \<and> (\<exists>c. plot_validation (fixed_model [[30, 40]]) [[1, 2, 3]] [[3, 4 :: int]] 0 = Inr c
         \<and> map fst (model_input c) = [0, 1, 2]
         \<and> map fst (model_output c) = [2, 3]
         \<and> map fst (expected c) = [2, 3])"
proof -
  have h: "np_index (fixed_model [[30, 40]] [[1, 2, 3 :: int]]) 0 = Inr [30, 40]"
    "np_index [[1, 2, 3 :: int]] 0 = Inr [1, 2, 3]"
    "np_index [[3, 4 :: int]] 0 = Inr [3, 4]"
    "length [3, 4 :: int] = length [30, 40 :: int]"
    by (simp_all add: np_index_def fixed_model_def)
  have u: "[0 .. int (length [1, 2, 3 :: int]) - 1] = [0, 1, 2]"
    "[int (length [1, 2, 3 :: int]) - 1 .. int (length [1, 2, 3 :: int]) - 1 + int (length [30, 40 :: int]) - 1]
       = [2, 3]"
    by (simp_all add: upto_rec1)
  note t = plot_validation_offsets[where predict = "fixed_model [[30, 40]]"
      and val_set = "[[1, 2, 3 :: int]]" and i = 0 and y_test = "[[3, 4]]", OF h]
  from t[unfolded u] have "\<exists>c. plot_validation (fixed_model [[30, 40]]) [[1, 2, 3]] [[3, 4 :: int]] 0 = Inr c
         \<and> map fst (model_input c) = [0, 1, 2]
         \<and> map fst (model_output c) = [2, 3]
         \<and> map fst (expected c) = [2, 3]"
    by auto
  with h show ?thesis by (intro conjI)
qed

text \<open>
  For an input window of three points the forecast and the expected output start at
  offset 2, not at offset 3.
\<close>

theorem plot_validation_offsets_counterexample:
  "plot_validation (fixed_model [[30, 40]]) [[1, 2, 3]] [[3, 4 :: int]] 0
     = Inr \<lparr>model_output = [(2, 30), (3, 40)], model_input = [(0, 1), (1, 2), (2, 3)],
            expected = [(2, 3), (3, 4)]\<rparr>
   \<and> fst (hd [(2 :: int, 30 :: int), (3, 40)]) \<noteq> int (length [1, 2, 3 :: int])
   \<and> fst (hd [(2 :: int, 3 :: int), (3, 4)]) \<noteq> int (length [1, 2, 3 :: int])"
  by (simp add: plot_validation_def np_index_def fixed_model_def data_frame_def np_arange_def
        py_range_def upto_rec1 Let_def)

end
